theory Spec2Isabelle
  imports Complex_Main
begin

section \<open>Python values\<close>

text \<open>
  Exceptions are values. \<open>PyException\<close> is the bare \<^verbatim>\<open>raise Exception\<close> of
  account.py; \<open>RequestError\<close> stands for whatever \<^verbatim>\<open>requests.post\<close> raises
  (time-out, connection failure); \<open>JSONDecodeError\<close> for a body that
  \<^verbatim>\<open>response.json()\<close> cannot read; \<open>EmptyInventory\<close> for a products file
  with no unit left.
\<close>

datatype error =
    KeyError | TypeError | AttributeError | IndexError | ValueError
  | PyException | RequestError | JSONDecodeError | EmptyInventory

text \<open>
  A \<^verbatim>\<open>str\<close> is modelled as its UTF-8 bytes (\<open>string\<close> is a list of 8-bit
  characters), so the Cyrillic literals of the source are byte lists. Substring
  containment, the only operation the source applies to them, is the same on
  code points and on well-formed UTF-8.

  The values \<^verbatim>\<open>response.json()\<close> produces. A decoded object is kept as the
  list of its items. JSON floats are left out.
\<close>

datatype json =
    JNull
  | JBool bool
  | JInt int
  | JStr string
  | JList "json list"
  | JDict "(string \<times> json) list"

type_synonym pydict = "(string \<times> json) list"

text \<open>Python truthiness: \<^verbatim>\<open>bool(v)\<close>.\<close>

fun truthy :: "json \<Rightarrow> bool" where
  "truthy JNull = False"
| "truthy (JBool b) = b"
| "truthy (JInt n) = (n \<noteq> 0)"
| "truthy (JStr s) = (s \<noteq> [])"
| "truthy (JList xs) = (xs \<noteq> [])"
| "truthy (JDict kvs) = (kvs \<noteq> [])"

text \<open>\<^verbatim>\<open>d.get(k)\<close>: \<^verbatim>\<open>None\<close> for a missing key.\<close>

definition dict_get :: "pydict \<Rightarrow> string \<Rightarrow> json" where
  "dict_get d k = (case map_of d k of None \<Rightarrow> JNull | Some v \<Rightarrow> v)"

fun starts_with :: "string \<Rightarrow> string \<Rightarrow> bool" where
  "starts_with s [] = True"
| "starts_with [] (p # ps) = False"
| "starts_with (c # cs) (p # ps) = (c = p \<and> starts_with cs ps)"

text \<open>\<^verbatim>\<open>needle in s\<close> for two strings.\<close>

fun str_in :: "string \<Rightarrow> string \<Rightarrow> bool" where
  "str_in needle [] = (needle = [])"
| "str_in needle (c # cs) = (starts_with (c # cs) needle \<or> str_in needle cs)"

text \<open>
  \<^verbatim>\<open>needle in v\<close> for a string \<open>needle\<close> and a decoded JSON value: substring
  of a string, element of a list, key of a dict; \<^verbatim>\<open>TypeError\<close> for a value
  that is not iterable.
\<close>

fun py_in :: "string \<Rightarrow> json \<Rightarrow> error + bool" where
  "py_in needle (JStr s) = Inr (str_in needle s)"
| "py_in needle (JList xs) = Inr (JStr needle \<in> set xs)"
| "py_in needle (JDict kvs) = Inr (needle \<in> fst ` set kvs)"
| "py_in needle JNull = Inl TypeError"
| "py_in needle (JBool b) = Inl TypeError"
| "py_in needle (JInt n) = Inl TypeError"

section \<open>FunPayAPI/account.py: raising the categories of a game\<close>

datatype CategoryTypes = LOT | CURRENCY

record Category =
  cat_id :: int
  game_id :: "int option"
  cat_title :: string
  cat_type :: CategoryTypes

text \<open>\<^verbatim>\<open>class RaiseCategoriesResponse(TypedDict)\<close>.\<close>

record RaiseCategoriesResponse =
  complete :: bool
  wait :: int
  raised_category_names :: "string list"
  response :: pydict

text \<open>
  The form data of a POST to \<^verbatim>\<open>Links.RAISE\<close>. \<open>node_ids\<close> is the
  \<^verbatim>\<open>"node_ids[]"\<close> entry, which only the second request carries.
\<close>

record raise_payload =
  payload_game_id :: "int option"
  payload_node_id :: int
  payload_node_ids :: "string list option"

record http_response =
  status_code :: int
  json_body :: "error + pydict"

text \<open>
  One \<^verbatim>\<open><div class="checkbox">\<close> of the modal form as BeautifulSoup shows it:
  \<open>cb_input\<close> is \<^verbatim>\<open>cb.find("input")\<close> (\<open>None\<close> when there is no such
  element) with its \<^verbatim>\<open>value\<close> attribute (\<open>None\<close> when it has none),
  \<open>cb_label\<close> the text of \<^verbatim>\<open>cb.find("label")\<close>.
\<close>

record checkbox =
  cb_input :: "string option option"
  cb_label :: "string option"

text \<open>
  What the method reaches outside this file, as parameters:
  \<open>post\<close> is \<^verbatim>\<open>requests.post(Links.RAISE, ...)\<close>;
  \<open>get_wait_time_from_raise_response\<close> is the parser of FunPayAPI/other.py;
  \<open>soup_checkboxes m\<close> is
  \<^verbatim>\<open>BeautifulSoup(m, "lxml").find_all("div", {"class": "checkbox"})\<close>.
\<close>

record account_env =
  post :: "raise_payload \<Rightarrow> error + http_response"
  get_wait_time_from_raise_response :: "json \<Rightarrow> error + int"
  soup_checkboxes :: "json \<Rightarrow> error + checkbox list"

text \<open>The literal \<^verbatim>\<open>"Podozhdite"\<close> (Cyrillic, "please wait"), in UTF-8.\<close>

definition wait_marker :: string where
  "wait_marker =
     [CHR 0xD0, CHR 0x9F, CHR 0xD0, CHR 0xBE, CHR 0xD0, CHR 0xB4, CHR 0xD0, CHR 0xBE,
      CHR 0xD0, CHR 0xB6, CHR 0xD0, CHR 0xB4, CHR 0xD0, CHR 0xB8, CHR 0xD1, CHR 0x82,
      CHR 0xD0, CHR 0xB5]"

text \<open>
  \<^verbatim>\<open>Account.request_lots_raise\<close>. Every function of this section threads
  \<open>posted\<close>, the payloads posted so far, oldest first.
\<close>

definition request_lots_raise ::
  "account_env \<Rightarrow> Category \<Rightarrow> raise_payload list \<Rightarrow> (error + pydict) \<times> raise_payload list"
where
  "request_lots_raise env category posted =
     (let payload = \<lparr>payload_game_id = game_id category, payload_node_id = cat_id category,
                      payload_node_ids = None\<rparr>;
          posted' = posted @ [payload]
      in case post env payload of
           Inl e \<Rightarrow> (Inl e, posted')
         | Inr r \<Rightarrow>
             if status_code r \<noteq> 200 then (Inl PyException, posted')
             else (json_body r, posted'))"

text \<open>
  The loop over the checkboxes (account.py lines 272-277), with the two
  accumulators \<^verbatim>\<open>category_ids\<close> and \<^verbatim>\<open>category_names\<close>.
  \<^verbatim>\<open>None["value"]\<close> is a TypeError, a missing attribute a KeyError,
  \<^verbatim>\<open>None.text\<close> an AttributeError.
\<close>

fun collect_checkboxes ::
  "string list option \<Rightarrow> checkbox list \<Rightarrow> string list \<Rightarrow> string list
     \<Rightarrow> error + (string list \<times> string list)"
where
  "collect_checkboxes exclude [] category_ids category_names =
     Inr (category_ids, category_names)"
| "collect_checkboxes exclude (cb # cbs) category_ids category_names =
     (case cb_input cb of
        None \<Rightarrow> Inl TypeError
      | Some None \<Rightarrow> Inl KeyError
      | Some (Some category_id) \<Rightarrow>
          if (exclude \<noteq> None \<and> category_id \<notin> set (the exclude)) \<or> exclude = None then
            (case cb_label cb of
               None \<Rightarrow> Inl AttributeError
             | Some category_name \<Rightarrow>
                 collect_checkboxes exclude cbs
                   (category_ids @ [category_id]) (category_names @ [category_name]))
          else collect_checkboxes exclude cbs category_ids category_names)"

text \<open>
  \<^verbatim>\<open>Account.raise_game_categories\<close>. The result is \<open>Inl\<close> for an exception
  that leaves the method, \<open>Inr None\<close> when the method runs off its last
  \<^verbatim>\<open>elif\<close> and so returns \<^verbatim>\<open>None\<close>, \<open>Inr (Some r)\<close> for a returned dict.
\<close>

definition raise_game_categories ::
  "account_env \<Rightarrow> Category \<Rightarrow> string list option \<Rightarrow> raise_payload list
     \<Rightarrow> (error + RaiseCategoriesResponse option) \<times> raise_payload list"
where
  "raise_game_categories env category exclude posted =
     (case request_lots_raise env category posted of
        (Inl e, posted1) \<Rightarrow> (Inl e, posted1)
      | (Inr check, posted1) \<Rightarrow>
          (case (if truthy (dict_get check ''error'') \<and> truthy (dict_get check ''msg'')
                 then py_in wait_marker (dict_get check ''msg'') else Inr False) of
             Inl e \<Rightarrow> (Inl e, posted1)
           | Inr cooldown \<Rightarrow>
               if cooldown then
                 (case get_wait_time_from_raise_response env (dict_get check ''msg'') of
                    Inl e \<Rightarrow> (Inl e, posted1)
                  | Inr wait_time \<Rightarrow>
                      (Inr (Some \<lparr>complete = False, wait = wait_time,
                                  raised_category_names = [], response = check\<rparr>), posted1))
               else if truthy (dict_get check ''error'') then
                 (Inr (Some \<lparr>complete = False, wait = 10,
                             raised_category_names = [], response = check\<rparr>), posted1)
               else if dict_get check ''error'' \<noteq> JNull \<and> \<not> truthy (dict_get check ''error'') then
                 (Inr (Some \<lparr>complete = True, wait = 3600,
                             raised_category_names = [cat_title category], response = check\<rparr>),
                  posted1)
               else if truthy (dict_get check ''modal'') then
                 (case soup_checkboxes env (dict_get check ''modal'') of
                    Inl e \<Rightarrow> (Inl e, posted1)
                  | Inr checkboxes \<Rightarrow>
                      (case collect_checkboxes exclude checkboxes [] [] of
                         Inl e \<Rightarrow> (Inl e, posted1)
                       | Inr (category_ids, category_names) \<Rightarrow>
                           (let payload = \<lparr>payload_game_id = game_id category,
                                            payload_node_id = cat_id category,
                                            payload_node_ids = Some category_ids\<rparr>;
                                posted2 = posted1 @ [payload]
                            in case post env payload of
                                 Inl e \<Rightarrow> (Inl e, posted2)
                               | Inr r \<Rightarrow>
                                   (case json_body r of
                                      Inl e \<Rightarrow> (Inl e, posted2)
                                    | Inr resp \<Rightarrow>
                                        if \<not> truthy (dict_get resp ''error'') then
                                          (Inr (Some \<lparr>complete = True, wait = 3600,
                                                      raised_category_names = category_names,
                                                      response = resp\<rparr>), posted2)
                                        else
                                          (Inr (Some \<lparr>complete = False, wait = 10,
                                                      raised_category_names = [],
                                                      response = resp\<rparr>), posted2)))))
               else (Inr None, posted1)))"

text \<open>
  Modelled from the spec: \<^verbatim>\<open>get_wait_time_from_raise_response\<close> lives in
  FunPayAPI/other.py, which is not among the sources. The spec says the cooldown is
  extracted "by locating its numeric/time substring" and that "any parser returning a
  duration in seconds satisfies the contract". This parser reads the first run of
  decimal digits of the message as seconds. It only instantiates the parameter
  \<open>get_wait_time_from_raise_response\<close> in concrete runs.
\<close>

definition is_digit :: "char \<Rightarrow> bool" where
  "is_digit c = (48 \<le> (of_char c :: nat) \<and> (of_char c :: nat) \<le> 57)"

definition cooldown_seconds :: "json \<Rightarrow> error + int" where
  "cooldown_seconds m =
     (case m of
        JStr s \<Rightarrow>
          (let ds = takeWhile is_digit (dropWhile (\<lambda>c. \<not> is_digit c) s)
           in if ds = [] then Inl ValueError
              else Inr (foldl (\<lambda>a c. 10 * a + (int (of_char c) - 48)) 0 ds))
      | _ \<Rightarrow> Inl TypeError)"

text \<open>
  A well-formed checkbox of the modal form, from its \<open>(category_id, category_name)\<close>
  pair, and the set of ids the caller excludes (\<^verbatim>\<open>exclude=None\<close> excludes none).
\<close>

definition entry_checkbox :: "string \<times> string \<Rightarrow> checkbox" where
  "entry_checkbox e = \<lparr>cb_input = Some (Some (fst e)), cb_label = Some (snd e)\<rparr>"

definition excluded :: "string list option \<Rightarrow> string set" where
  "excluded exclude = (case exclude of None \<Rightarrow> {} | Some ex \<Rightarrow> set ex)"

section \<open>Strings in handlers.py\<close>

text \<open>
  \<^verbatim>\<open>str.strip()\<close> and \<^verbatim>\<open>str.lower()\<close> are builtins of Python and follow the
  Unicode tables; the handlers below take them as the parameters \<open>str_strip\<close> and
  \<open>str_lower\<close>, so what is proved of the handlers holds for the builtins whatever
  they do to a text. \<open>ascii_strip\<close> and \<open>ascii_lower\<close> are what the builtins do on
  text that is ASCII throughout (the whitespace characters are those for which
  \<^verbatim>\<open>str.isspace\<close> holds below 128, the cased ones are \<^verbatim>\<open>A-Z\<close>); they stand in
  for the builtins only in the concrete runs, whose texts are ASCII.
\<close>

definition is_space :: "char \<Rightarrow> bool" where
  "is_space c = (c \<in> set [CHR 0x09, CHR 0x0A, CHR 0x0B, CHR 0x0C, CHR 0x0D,
                          CHR 0x1C, CHR 0x1D, CHR 0x1E, CHR 0x1F, CHR 0x20])"

definition ascii_strip :: "string \<Rightarrow> string" where
  "ascii_strip s = rev (dropWhile is_space (rev (dropWhile is_space s)))"

definition ascii_lower :: "string \<Rightarrow> string" where
  "ascii_lower s =
     map (\<lambda>c. case map_of (zip ''ABCDEFGHIJKLMNOPQRSTUVWXYZ''
                                  ''abcdefghijklmnopqrstuvwxyz'') c of
                None \<Rightarrow> c
              | Some l \<Rightarrow> l) s"

text \<open>
  \<^verbatim>\<open>s.replace(old, new)\<close> for a non-empty \<open>old\<close> (the source's is
  \<^verbatim>\<open>"$product"\<close>): every occurrence, left to right, without overlap.
\<close>

fun py_replace :: "string \<Rightarrow> string \<Rightarrow> string \<Rightarrow> string" where
  "py_replace old new [] = []"
| "py_replace old new (c # cs) =
     (if old \<noteq> [] \<and> starts_with (c # cs) old
      then new @ py_replace old new (drop (length old - 1) cs)
      else c # py_replace old new cs)"

section \<open>handlers.py: data\<close>

datatype OrderStatuses = OUTSTANDING | COMPLETED | REFUND

text \<open>\<^verbatim>\<open>class Order\<close> of FunPayAPI/orders.py (\<open>price\<close> is a float there).\<close>

record Order =
  order_id :: string
  order_title :: string
  price :: rat
  buyer_name :: string
  buyer_id :: int
  status :: OrderStatuses

text \<open>
  \<^verbatim>\<open>MessageEvent\<close> of FunPayAPI/runner.py, with the fields handlers.py reads
  and the constructor call on line 50 fills.
\<close>

record MessageEvent =
  node_id :: int
  message_text :: string
  sender_username :: string
  send_time :: int
  tag :: string

datatype level = DEBUG | INFO | WARNING | ERROR

text \<open>
  The log lines of the modelled handlers, one constructor per \<^verbatim>\<open>logger\<close> call
  with the values its f-string prints. \<open>Traceback e\<close> is
  \<^verbatim>\<open>logger.debug(traceback.format_exc())\<close> while \<open>e\<close> is being handled.
\<close>

datatype log_msg =
    ResponseSent string
  | ResponseSendError string
  | ResponseDump pydict
  | CommandReceived string string int
  | ResponseUnexpectedError string
  | Traceback error
  | NextAttemptInASecond
  | ResponseAttemptsExceeded
  | ProductSendError string
  | LotNotInConfig string
  | DeliveryAttemptsExceeded string
  | ProductDelivered string
  | DeliveryUnexpectedError string

text \<open>
  What a handler does to the outside, in the order it happens:
  a log line, \<^verbatim>\<open>time.sleep(n)\<close>, a call of \<^verbatim>\<open>Account.send_message\<close>.
\<close>

datatype effect =
    Log level log_msg
  | Sleep nat
  | SendMessage "int option" string

text \<open>
  The mutable state the handlers share: the effects so far (oldest first), the
  products files by path, \<^verbatim>\<open>cardinal.runner.last_messages\<close>, and the number of
  requests posted to the chat endpoint so far.
\<close>

record world =
  trace :: "effect list"
  inventory :: "string \<rightharpoonup> string list"
  last_messages :: "int \<rightharpoonup> MessageEvent"
  posts :: nat

text \<open>
  The positional arguments handed to the handlers of an event. \<open>ACardinal\<close> is the
  \<^verbatim>\<open>cardinal\<close> object itself, \<open>AErrText e\<close> is \<^verbatim>\<open>str(e)\<close>.
\<close>

datatype arg = AOrder Order | AStr string | AErrText error | ACardinal | ABool bool

text \<open>
  A handler either returns or raises, and in both cases leaves a state behind.
\<close>

type_synonym ('a, 's) handler = "'a \<Rightarrow> 's \<Rightarrow> error option \<times> 's"

text \<open>
  The attributes of \<^verbatim>\<open>cardinal\<close> that the modelled handlers read.
  \<open>AutoResponse\<close> and \<open>autoDelivery\<close> are
  \<^verbatim>\<open>int(cardinal.main_config["FunPay"][...])\<close>, \<open>Inl\<close> when the lookup or the
  conversion raises. \<open>auto_delivery_config\<close> keeps the order in which the config
  is iterated. \<open>chats_html\<close> is \<^verbatim>\<open>cardinal.account.chats_html\<close>. Handlers are
  registered with their names.
\<close>

record Cardinal =
  AutoResponse :: "error + int"
  autoDelivery :: "error + int"
  auto_response_config :: "string \<rightharpoonup> (string \<rightharpoonup> string)"
  auto_delivery_config :: "(string \<times> (string \<rightharpoonup> string)) list"
  chats_html :: "string option"
  delivery_event_handlers :: "(string \<times> (arg list, world) handler) list"

text \<open>
  What handlers.py reaches outside the sources, as parameters:
  \<open>send_post n node text\<close> is the \<open>n\<close>-th \<^verbatim>\<open>requests.post(Links.RUNNER, ...)\<close>
  of the run followed by \<^verbatim>\<open>response.json()\<close>;
  \<open>format_msg_text\<close> and \<open>format_order_text\<close> are those of Utils/cardinal_tools.py;
  \<open>find_user_box html username\<close> is the BeautifulSoup search of
  \<^verbatim>\<open>get_node_id_by_username\<close>: \<open>None\<close> when no box is found, otherwise
  \<^verbatim>\<open>int(user_box.parent["data-id"])\<close>;
  \<open>str_strip\<close> and \<open>str_lower\<close> are the builtins \<^verbatim>\<open>str.strip()\<close> and
  \<^verbatim>\<open>str.lower()\<close>.
\<close>

record handlers_env =
  send_post :: "nat \<Rightarrow> int option \<Rightarrow> string \<Rightarrow> error + pydict"
  format_msg_text :: "string \<Rightarrow> MessageEvent \<Rightarrow> error + string"
  format_order_text :: "string \<Rightarrow> Order \<Rightarrow> error + string"
  find_user_box :: "string \<Rightarrow> string \<Rightarrow> (error + int) option"
  str_strip :: "string \<Rightarrow> string"
  str_lower :: "string \<Rightarrow> string"

definition emits :: "effect list \<Rightarrow> world \<Rightarrow> world" where
  "emits es w = w\<lparr>trace := trace w @ es\<rparr>"

section \<open>FunPayAPI/account.py: the chat\<close>

text \<open>
  \<^verbatim>\<open>Account.send_message\<close>. A text that is blank after \<^verbatim>\<open>strip()\<close> raises
  before anything is posted. Every call is recorded in the trace.
\<close>

definition send_message ::
  "handlers_env \<Rightarrow> int option \<Rightarrow> string \<Rightarrow> world \<Rightarrow> (error + pydict) \<times> world"
where
  "send_message env node text w =
     (let w1 = emits [SendMessage node text] w
      in if str_strip env text = [] then (Inl PyException, w1)
         else (send_post env (posts w1) node text, w1\<lparr>posts := posts w1 + 1\<rparr>))"

text \<open>\<^verbatim>\<open>Account.get_node_id_by_username\<close>.\<close>

definition get_node_id_by_username ::
  "handlers_env \<Rightarrow> string option \<Rightarrow> string \<Rightarrow> bool \<Rightarrow> error + int option"
where
  "get_node_id_by_username env html username force_request =
     (if \<not> force_request \<and> html \<noteq> None then
        (case find_user_box env (the html) username of
           None \<Rightarrow> Inr None
         | Some (Inl e) \<Rightarrow> Inl e
         | Some (Inr n) \<Rightarrow> Inr (Some n))
      else Inr None)"

section \<open>Collaborators modelled from the spec\<close>

text \<open>
  What the dispatcher records: that it called the handler of that name with those
  arguments, and that it caught and logged an exception of that handler.
\<close>

datatype 'a dispatch_entry = Invoked string 'a | Caught string error

text \<open>
  Modelled from the spec: \<^verbatim>\<open>Cardinal.run_handlers\<close> is defined in cardinal.py,
  which is not among the sources; handlers.py only calls it. Section 4.1 of the spec:
  dispatch "invokes every registered handler for kind, in registration order, passing
  the same positional arguments to each. Each invocation is isolated: an exception
  raised by one handler is caught, logged [...], and does not prevent subsequent
  handlers in the same dispatch from running. dispatch has no return value". The
  state is threaded through the handlers; the list of entries is the dispatcher's
  own record.
\<close>

fun run_handlers ::
  "(string \<times> ('a, 's) handler) list \<Rightarrow> 'a \<Rightarrow> 's \<Rightarrow> 's \<times> 'a dispatch_entry list"
where
  "run_handlers [] args s = (s, [])"
| "run_handlers (nh # hs) args s =
     (case snd nh args s of
        (exc, s1) \<Rightarrow>
          (case run_handlers hs args s1 of
             (s2, entries) \<Rightarrow>
               (s2, Invoked (fst nh) args
                    # (case exc of None \<Rightarrow> [] | Some e \<Rightarrow> [Caught (fst nh) e]) @ entries)))"

text \<open>
  Modelled from the spec: \<^verbatim>\<open>cardinal_tools.get_product_from_json\<close> and
  \<^verbatim>\<open>cardinal_tools.add_product_to_json\<close> live in Utils/cardinal_tools.py, which
  is not among the sources. Section 6 of the spec:
  "InventorySource.popOne() -> item | Empty and InventorySource.pushBack(item) -> void".
  The products file at a path is the list of its units; popping takes the first one
  and returns a list whose element 0 is that unit (the source reads
  \<^verbatim>\<open>product[0]\<close>); pushing back appends.
\<close>

definition get_product_from_json :: "string \<Rightarrow> world \<Rightarrow> (error + string list) \<times> world" where
  "get_product_from_json path w =
     (case inventory w path of
        None \<Rightarrow> (Inl EmptyInventory, w)
      | Some [] \<Rightarrow> (Inl EmptyInventory, w)
      | Some (p # ps) \<Rightarrow> (Inr [p], w\<lparr>inventory := (inventory w)(path \<mapsto> ps)\<rparr>))"

definition add_product_to_json :: "string \<Rightarrow> string \<Rightarrow> world \<Rightarrow> world" where
  "add_product_to_json path product w =
     w\<lparr>inventory := (inventory w)
          (path \<mapsto> (case inventory w path of None \<Rightarrow> [] | Some ps \<Rightarrow> ps) @ [product])\<rparr>"

section \<open>handlers.py: answering a command\<close>

text \<open>\<^verbatim>\<open>send_response\<close>: \<open>Inl\<close> when it raises, otherwise the bool it returns.\<close>

definition send_response ::
  "handlers_env \<Rightarrow> Cardinal \<Rightarrow> MessageEvent \<Rightarrow> world \<Rightarrow> (error + bool) \<times> world"
where
  "send_response env cardinal msg w =
     (case auto_response_config cardinal (str_strip env (message_text msg)) of
        None \<Rightarrow> (Inl KeyError, w)
      | Some command \<Rightarrow>
          (case command ''response'' of
             None \<Rightarrow> (Inl KeyError, w)
           | Some template \<Rightarrow>
               (case format_msg_text env template msg of
                  Inl e \<Rightarrow> (Inl e, w)
                | Inr response_text \<Rightarrow>
                    (let new_msg_object =
                           \<lparr>node_id = node_id msg, message_text = response_text,
                            sender_username = sender_username msg,
                            send_time = send_time msg, tag = tag msg\<rparr>
                     in case send_message env (Some (node_id msg)) response_text w of
                          (Inl e, w1) \<Rightarrow> (Inl e, w1)
                        | (Inr resp, w1) \<Rightarrow>
                            (case (if truthy (dict_get resp ''response'') then
                                     (case dict_get resp ''response'' of
                                        JDict d \<Rightarrow> Inr (dict_get d ''error'' = JNull)
                                      | _ \<Rightarrow> Inl AttributeError)
                                   else Inr False) of
                               Inl e \<Rightarrow> (Inl e, w1)
                             | Inr ok \<Rightarrow>
                                 if ok then
                                   (Inr True,
                                    emits [Log INFO (ResponseSent (sender_username msg))]
                                      (w1\<lparr>last_messages :=
                                            (last_messages w1)(node_id msg \<mapsto> new_msg_object)\<rparr>))
                                 else
                                   (Inr False,
                                    emits [Log WARNING (ResponseSendError (sender_username msg)),
                                           Log DEBUG (ResponseDump resp)] w1))))))"

text \<open>
  The loop of \<^verbatim>\<open>send_response_handler\<close> (lines 80-95), on the attempts left; it
  returns \<^verbatim>\<open>done\<close>.
\<close>

fun send_response_attempts ::
  "handlers_env \<Rightarrow> Cardinal \<Rightarrow> MessageEvent \<Rightarrow> nat \<Rightarrow> world \<Rightarrow> bool \<times> world"
where
  "send_response_attempts env cardinal msg 0 w = (False, w)"
| "send_response_attempts env cardinal msg (Suc attempts) w =
     (case send_response env cardinal msg w of
        (Inl e, w1) \<Rightarrow>
          send_response_attempts env cardinal msg attempts
            (emits [Log ERROR (ResponseUnexpectedError (sender_username msg)),
                    Log DEBUG (Traceback e), Log INFO NextAttemptInASecond, Sleep 1] w1)
      | (Inr result, w1) \<Rightarrow>
          if \<not> result then
            send_response_attempts env cardinal msg attempts
              (emits [Log INFO NextAttemptInASecond, Sleep 1] w1)
          else (True, w1))"

text \<open>
  \<^verbatim>\<open>send_response_handler\<close>: the exception that leaves it, if any, and the state
  it leaves.
\<close>

definition send_response_handler ::
  "handlers_env \<Rightarrow> Cardinal \<Rightarrow> MessageEvent \<Rightarrow> world \<Rightarrow> error option \<times> world"
where
  "send_response_handler env cardinal msg w =
     (case AutoResponse cardinal of
        Inl e \<Rightarrow> (Some e, w)
      | Inr enabled \<Rightarrow>
          if enabled = 0 then (None, w)
          else if auto_response_config cardinal
                    (str_lower env (str_strip env (message_text msg))) = None
          then (None, w)
          else
            (case send_response_attempts env cardinal msg 3
                    (emits [Log INFO (CommandReceived (str_strip env (message_text msg))
                                        (sender_username msg) (node_id msg))] w) of
               (done, w1) \<Rightarrow>
                 if \<not> done then (None, emits [Log ERROR ResponseAttemptsExceeded] w1)
                 else (None, w1)))"

section \<open>handlers.py: delivering a product\<close>

text \<open>
  The loop of \<^verbatim>\<open>send_product_text\<close> (lines 158-168), on the attempts left. The
  bare \<^verbatim>\<open>except\<close> catches whatever \<^verbatim>\<open>send_message\<close> raises; any return of
  \<^verbatim>\<open>send_message\<close> ends the loop with \<^verbatim>\<open>True\<close>.
\<close>

fun send_product_attempts ::
  "handlers_env \<Rightarrow> nat \<Rightarrow> int option \<Rightarrow> string \<Rightarrow> string \<Rightarrow> world \<Rightarrow> bool \<times> world"
where
  "send_product_attempts env 0 node text oid w = (False, w)"
| "send_product_attempts env (Suc attempts) node text oid w =
     (case send_message env node text w of
        (Inr r, w1) \<Rightarrow> (True, w1)
      | (Inl e, w1) \<Rightarrow>
          send_product_attempts env attempts node text oid
            (emits [Log ERROR (ProductSendError oid), Log DEBUG (Traceback e),
                    Log INFO NextAttemptInASecond, Sleep 1] w1))"

definition send_product_text ::
  "handlers_env \<Rightarrow> int option \<Rightarrow> string \<Rightarrow> string \<Rightarrow> world \<Rightarrow> bool \<times> world"
where
  "send_product_text env node text oid w = send_product_attempts env 3 node text oid w"

text \<open>
  \<^verbatim>\<open>deliver_product\<close>: \<open>Inl\<close> when it raises, \<open>Inr None\<close> when no lot name of
  the config occurs in the order's title, otherwise the returned triple
  \<^verbatim>\<open>(result, response_text, -1)\<close>. Line 194 passes \<^verbatim>\<open>order.title\<close> where
  line 203 passes \<^verbatim>\<open>order.id\<close>.
\<close>

definition deliver_product ::
  "handlers_env \<Rightarrow> Cardinal \<Rightarrow> Order \<Rightarrow> world
     \<Rightarrow> (error + (bool \<times> string \<times> int) option) \<times> world"
where
  "deliver_product env cardinal order w =
     (case find (\<lambda>lot. str_in (fst lot) (order_title order)) (auto_delivery_config cardinal) of
        None \<Rightarrow> (Inr None, w)
      | Some (lot_name, delivery_obj) \<Rightarrow>
          (case get_node_id_by_username env (chats_html cardinal) (buyer_name order) False of
             Inl e \<Rightarrow> (Inl e, w)
           | Inr node \<Rightarrow>
               (case delivery_obj ''response'' of
                  None \<Rightarrow> (Inl KeyError, w)
                | Some template \<Rightarrow>
                    (case format_order_text env template order of
                       Inl e \<Rightarrow> (Inl e, w)
                     | Inr response_text \<Rightarrow>
                         (case delivery_obj ''productsFilePath'' of
                            None \<Rightarrow>
                              (case send_product_text env node response_text (order_title order) w of
                                 (result, w1) \<Rightarrow> (Inr (Some (result, response_text, - 1)), w1))
                          | Some path \<Rightarrow>
                              (case get_product_from_json path w of
                                 (Inl e, w1) \<Rightarrow> (Inl e, w1)
                               | (Inr product, w1) \<Rightarrow>
                                   (case product of
                                      [] \<Rightarrow> (Inl IndexError, w1)
                                    | product_text # rest \<Rightarrow>
                                        (let response_text2 =
                                               py_replace ''$product'' product_text response_text
                                         in case send_product_text env node response_text2
                                                   (order_id order) w1 of
                                              (result, w2) \<Rightarrow>
                                                (Inr (Some (result, response_text2, - 1)),
                                                 if \<not> result
                                                 then add_product_to_json path product_text w2
                                                 else w2)))))))))"

text \<open>The literal of line 228 ("attempts exceeded", Cyrillic), in UTF-8.\<close>

definition attempts_exceeded_text :: string where
  "attempts_exceeded_text =
     [CHR 0xD0, CHR 0x9F, CHR 0xD1, CHR 0x80, CHR 0xD0, CHR 0xB5, CHR 0xD0, CHR 0xB2,
      CHR 0xD1, CHR 0x8B, CHR 0xD1, CHR 0x88, CHR 0xD0, CHR 0xB5, CHR 0xD0, CHR 0xBD,
      CHR 0xD0, CHR 0xBE, CHR 0x20, CHR 0xD0, CHR 0xBA, CHR 0xD0, CHR 0xBE, CHR 0xD0,
      CHR 0xBB, CHR 0x2D, CHR 0xD0, CHR 0xB2, CHR 0xD0, CHR 0xBE, CHR 0x20, CHR 0xD0,
      CHR 0xBF, CHR 0xD0, CHR 0xBE, CHR 0xD0, CHR 0xBF, CHR 0xD1, CHR 0x8B, CHR 0xD1,
      CHR 0x82, CHR 0xD0, CHR 0xBE, CHR 0xD0, CHR 0xBA, CHR 0x2E]"

text \<open>
  \<^verbatim>\<open>delivery_product_handler\<close>: the exception that leaves it, if any, the state it
  leaves, and what the dispatcher recorded for the DELIVERY event it raised (nothing
  when no such event was dispatched).
\<close>

definition delivery_product_handler ::
  "handlers_env \<Rightarrow> Cardinal \<Rightarrow> Order \<Rightarrow> world
     \<Rightarrow> error option \<times> world \<times> arg list dispatch_entry list"
where
  "delivery_product_handler env cardinal order w =
     (case autoDelivery cardinal of
        Inl e \<Rightarrow> (Some e, w, [])
      | Inr enabled \<Rightarrow>
          if enabled = 0 then (None, w, [])
          else
            (case deliver_product env cardinal order w of
               (Inl e, w1) \<Rightarrow>
                 (None,
                  run_handlers (delivery_event_handlers cardinal)
                    [AOrder order, AErrText e, ACardinal, ABool True]
                    (emits [Log ERROR (DeliveryUnexpectedError (order_id order)),
                            Log DEBUG (Traceback e)] w1))
             | (Inr None, w1) \<Rightarrow>
                 (None, emits [Log INFO (LotNotInConfig (order_title order))] w1, [])
             | (Inr (Some (result, text, remaining)), w1) \<Rightarrow>
                 if \<not> result then
                   (None,
                    run_handlers (delivery_event_handlers cardinal)
                      [AOrder order, AStr attempts_exceeded_text, ACardinal, ABool True]
                      (emits [Log ERROR (DeliveryAttemptsExceeded (order_id order))] w1))
                 else
                   (None,
                    run_handlers (delivery_event_handlers cardinal)
                      [AOrder order, AStr text, ACardinal]
                      (emits [Log INFO (ProductDelivered (order_id order))] w1))))"

section \<open>Vocabulary of the statements\<close>

text \<open>
  The effects of one failed attempt of \<^verbatim>\<open>send_product_text\<close>: the call, the
  three log lines of the \<^verbatim>\<open>except\<close> block, and the sleep of one second.
\<close>

definition failed_attempt :: "string \<Rightarrow> int option \<Rightarrow> string \<Rightarrow> error \<Rightarrow> effect list" where
  "failed_attempt oid node text e =
     [SendMessage node text, Log ERROR (ProductSendError oid), Log DEBUG (Traceback e),
      Log INFO NextAttemptInASecond, Sleep 1]"

text \<open>The same for one attempt of \<^verbatim>\<open>send_response_handler\<close> that raised before sending.\<close>

definition raised_attempt :: "string \<Rightarrow> error \<Rightarrow> effect list" where
  "raised_attempt username e =
     [Log ERROR (ResponseUnexpectedError username), Log DEBUG (Traceback e),
      Log INFO NextAttemptInASecond, Sleep 1]"

text \<open>
  The state after the \<^verbatim>\<open>except\<close> block of \<^verbatim>\<open>send_product_text\<close> (lines 163-167)
  has run on the state \<open>w\<close> in which \<^verbatim>\<open>send_message\<close> raised \<open>e\<close>.
\<close>

definition after_failed_send :: "string \<Rightarrow> error \<Rightarrow> world \<Rightarrow> world" where
  "after_failed_send oid e w =
     emits [Log ERROR (ProductSendError oid), Log DEBUG (Traceback e),
            Log INFO NextAttemptInASecond, Sleep 1] w"

text \<open>
  Three consecutive send failures: from the state \<open>w\<close>, the call of
  \<^verbatim>\<open>send_message\<close> raises \<open>e1\<close>; called again after the \<^verbatim>\<open>except\<close> block it
  raises \<open>e2\<close>; called a third time it raises \<open>e3\<close> and leaves the state \<open>w3\<close>.
\<close>

definition three_sends_raise ::
  "handlers_env \<Rightarrow> int option \<Rightarrow> string \<Rightarrow> string \<Rightarrow> world
     \<Rightarrow> error \<Rightarrow> error \<Rightarrow> error \<Rightarrow> world \<Rightarrow> bool"
where
  "three_sends_raise env node text oid w e1 e2 e3 w3 =
     (case send_message env node text w of
        (r1, w1) \<Rightarrow>
          r1 = Inl e1 \<and>
          (case send_message env node text (after_failed_send oid e1 w1) of
             (r2, w2) \<Rightarrow>
               r2 = Inl e2 \<and>
               (case send_message env node text (after_failed_send oid e2 w2) of
                  (r3, w4) \<Rightarrow> r3 = Inl e3 \<and> w4 = w3)))"

fun is_invoked :: "'a dispatch_entry \<Rightarrow> bool" where
  "is_invoked (Invoked name args) = True"
| "is_invoked (Caught name e) = False"

fun is_send :: "effect \<Rightarrow> bool" where
  "is_send (SendMessage node text) = True"
| "is_send (Log l m) = False"
| "is_send (Sleep n) = False"

section \<open>Concrete runs\<close>

text \<open>The message \<^verbatim>\<open>"Podozhdite 45 sekund"\<close> (Cyrillic, "wait 45 seconds"), in UTF-8.\<close>

definition cooldown_45_text :: string where
  "cooldown_45_text =
     [CHR 0xD0, CHR 0x9F, CHR 0xD0, CHR 0xBE, CHR 0xD0, CHR 0xB4, CHR 0xD0, CHR 0xBE,
      CHR 0xD0, CHR 0xB6, CHR 0xD0, CHR 0xB4, CHR 0xD0, CHR 0xB8, CHR 0xD1, CHR 0x82,
      CHR 0xD0, CHR 0xB5, CHR 0x20, CHR 0x34, CHR 0x35, CHR 0x20, CHR 0xD1, CHR 0x81,
      CHR 0xD0, CHR 0xB5, CHR 0xD0, CHR 0xBA, CHR 0xD1, CHR 0x83, CHR 0xD0, CHR 0xBD,
      CHR 0xD0, CHR 0xB4]"

definition gold_category :: Category where
  "gold_category = \<lparr>cat_id = 210, game_id = Some 41, cat_title = ''Gold'', cat_type = LOT\<rparr>"

definition first_payload :: raise_payload where
  "first_payload = \<lparr>payload_game_id = Some 41, payload_node_id = 210, payload_node_ids = None\<rparr>"

text \<open>
  A marketplace that answers the first raise request with \<open>first\<close> and a request
  carrying \<^verbatim>\<open>"node_ids[]"\<close> with \<open>second\<close>, and whose modal form holds the
  checkboxes \<open>cbs\<close>.
\<close>

definition scripted_env :: "pydict \<Rightarrow> pydict \<Rightarrow> checkbox list \<Rightarrow> account_env" where
  "scripted_env first second cbs =
     \<lparr>post = (\<lambda>p. if payload_node_ids p = None
                  then Inr \<lparr>status_code = 200, json_body = Inr first\<rparr>
                  else Inr \<lparr>status_code = 200, json_body = Inr second\<rparr>),
      get_wait_time_from_raise_response = cooldown_seconds,
      soup_checkboxes = (\<lambda>m. Inr cbs)\<rparr>"

text \<open>The message \<^verbatim>\<open>"Podozhdite 0 sekund"\<close> (Cyrillic, "wait 0 seconds"), in UTF-8.\<close>

definition cooldown_0_text :: string where
  "cooldown_0_text =
     [CHR 0xD0, CHR 0x9F, CHR 0xD0, CHR 0xBE, CHR 0xD0, CHR 0xB4, CHR 0xD0, CHR 0xBE,
      CHR 0xD0, CHR 0xB6, CHR 0xD0, CHR 0xB4, CHR 0xD0, CHR 0xB8, CHR 0xD1, CHR 0x82,
      CHR 0xD0, CHR 0xB5, CHR 0x20, CHR 0x30, CHR 0x20, CHR 0xD1, CHR 0x81,
      CHR 0xD0, CHR 0xB5, CHR 0xD0, CHR 0xBA, CHR 0xD1, CHR 0x83, CHR 0xD0, CHR 0xBD,
      CHR 0xD0, CHR 0xB4]"

definition zero_check :: pydict where
  "zero_check = [(''error'', JBool True), (''msg'', JStr cooldown_0_text)]"

definition cooldown_check :: pydict where
  "cooldown_check = [(''error'', JBool True), (''msg'', JStr cooldown_45_text)]"

definition modal_entries :: "(string \<times> string) list" where
  "modal_entries = [(''210'', ''Gold''), (''211'', ''Items''), (''212'', ''Accounts'')]"

definition modal_check :: pydict where
  "modal_check = [(''modal'', JStr ''<div class=checkbox>...</div>'')]"

text \<open>
  Collaborators of handlers.py whose \<open>n\<close>-th post is answered by \<open>replies n\<close>,
  whose formatters return the template as it is, whose chat list knows nobody, and
  whose texts are ASCII.
\<close>

definition echo_env :: "(nat \<Rightarrow> error + pydict) \<Rightarrow> handlers_env" where
  "echo_env replies =
     \<lparr>send_post = (\<lambda>n node text. replies n),
      format_msg_text = (\<lambda>template msg. Inr template),
      format_order_text = (\<lambda>template order. Inr template),
      find_user_box = (\<lambda>html username. None),
      str_strip = ascii_strip, str_lower = ascii_lower\<rparr>"

definition gold_order :: Order where
  "gold_order = \<lparr>order_id = ''A1B2C3'', order_title = ''100 Gold'', price = 50,
                  buyer_name = ''buyer'', buyer_id = 7, status = OUTSTANDING\<rparr>"

definition shop_cardinal :: Cardinal where
  "shop_cardinal =
     \<lparr>AutoResponse = Inr 1, autoDelivery = Inr 1,
      auto_response_config = map_of [(''!help'', map_of [(''response'', ''Ask the seller'')])],
      auto_delivery_config =
        [(''Gold'', map_of [(''response'', ''Thanks, $product''),
                            (''productsFilePath'', ''gold.json'')])],
      chats_html = None,
      delivery_event_handlers =
        [(''send_delivery_notification_handler'', (\<lambda>args w. (None, w)))]\<rparr>"

definition stocked_world :: world where
  "stocked_world =
     \<lparr>trace = [], inventory = [''gold.json'' \<mapsto> [''key-1'', ''key-2'']],
      last_messages = Map.empty, posts = 0\<rparr>"

definition help_message :: MessageEvent where
  "help_message = \<lparr>node_id = 5, message_text = '' !Help '', sender_username = ''buyer'',
                    send_time = 0, tag = ''t''\<rparr>"

text \<open>
  Three handlers under the names registered for the NEW_MESSAGE event, on a state
  that lists who ran; the second one raises.
\<close>

definition new_message_handlers :: "(string \<times> (string, nat list) handler) list" where
  "new_message_handlers =
     [(''log_msg_handler'', (\<lambda>args s. (None, s @ [1]))),
      (''send_response_handler'', (\<lambda>args s. (Some KeyError, s @ [2]))),
      (''send_command_notification_handler'', (\<lambda>args s. (None, s @ [3])))]"

section \<open>Auxiliary facts\<close>

lemma collect_entries:
  "collect_checkboxes exclude (map entry_checkbox M) ids names =
     Inr (ids @ map fst [e \<leftarrow> M. fst e \<notin> excluded exclude],
          names @ map snd [e \<leftarrow> M. fst e \<notin> excluded exclude])"
  by (induction M arbitrary: ids names)
     (auto simp: entry_checkbox_def excluded_def split: option.splits)

lemma request_scripted:
  "request_lots_raise (scripted_env first second cbs) gold_category [] = (Inr first, [first_payload])"
  by (simp add: request_lots_raise_def scripted_env_def gold_category_def first_payload_def)

lemma cooldown_seconds_45: "cooldown_seconds (JStr cooldown_45_text) = Inr 45"
  by (simp add: cooldown_seconds_def cooldown_45_text_def is_digit_def)

lemma str_in_45: "str_in wait_marker cooldown_45_text"
  by (simp add: wait_marker_def cooldown_45_text_def)

lemma cooldown_45_nonempty: "cooldown_45_text \<noteq> []"
  by (simp add: cooldown_45_text_def)

lemma cooldown_seconds_0: "cooldown_seconds (JStr cooldown_0_text) = Inr 0"
  by (simp add: cooldown_seconds_def cooldown_0_text_def is_digit_def)

lemma str_in_0: "str_in wait_marker cooldown_0_text"
  by (simp add: wait_marker_def cooldown_0_text_def)

lemma cooldown_0_nonempty: "cooldown_0_text \<noteq> []"
  by (simp add: cooldown_0_text_def)

lemma scripted_parser:
  "get_wait_time_from_raise_response (scripted_env first second cbs) = cooldown_seconds"
  by (simp add: scripted_env_def)

section \<open>The raise workflow\<close>

text \<open>
  Claim C2. When the answer to the raise request carries a truthy \<^verbatim>\<open>error\<close> and a
  message that contains the cooldown notice, \<^verbatim>\<open>raise_game_categories\<close> returns
  \<^verbatim>\<open>complete = False\<close>, \<^verbatim>\<open>wait\<close> = the seconds the parser reads from the
  message, and no raised category names; no second request is posted.
\<close>

theorem raise_cooldown_outcome:
  assumes "request_lots_raise env category posted = (Inr check, posted1)"
      and "truthy (dict_get check ''error'')"
      and "dict_get check ''msg'' = JStr m"
      and "str_in wait_marker m"
      and "get_wait_time_from_raise_response env (JStr m) = Inr seconds"
  shows "raise_game_categories env category exclude posted =
           (Inr (Some \<lparr>complete = False, wait = seconds, raised_category_names = [],
                       response = check\<rparr>), posted1)"
proof -
  from assms(4) have "m \<noteq> []"
    by (cases m) (auto simp: wait_marker_def)
  with assms show ?thesis
    by (simp add: raise_game_categories_def)
qed

text \<open>
  The scenario of the claim: the answer
  \<^verbatim>\<open>{"error": true, "msg": "Podozhdite 45 sekund"}\<close> (in Cyrillic) gives
  \<^verbatim>\<open>{complete: false, wait: 45, raised: []}\<close>, with the parser modelled from the
  spec.
\<close>

theorem raise_cooldown_outcome_witness:
  "raise_game_categories (scripted_env cooldown_check [] []) gold_category None [] =
     (Inr (Some \<lparr>complete = False, wait = 45, raised_category_names = [],
                 response = [(''error'', JBool True), (''msg'', JStr cooldown_45_text)]\<rparr>),
      [first_payload])"
proof -
  have h1: "request_lots_raise (scripted_env cooldown_check [] []) gold_category [] =
              (Inr cooldown_check, [first_payload])"
    by (rule request_scripted)
  have h2: "truthy (dict_get cooldown_check ''error'')"
    by (simp add: cooldown_check_def dict_get_def)
  have h3: "dict_get cooldown_check ''msg'' = JStr cooldown_45_text"
    by (simp add: cooldown_check_def dict_get_def)
  have h5: "get_wait_time_from_raise_response (scripted_env cooldown_check [] [])
              (JStr cooldown_45_text) = Inr 45"
    by (simp add: scripted_env_def cooldown_seconds_45)
  show ?thesis
    using raise_cooldown_outcome [OF h1 h2 h3 str_in_45 h5, of None]
    by (simp add: cooldown_check_def)
qed

text \<open>
  Claim C3. When the first answer opens the modal form (no \<^verbatim>\<open>error\<close> value, a
  truthy \<^verbatim>\<open>modal\<close>) and the form parses into the entries \<open>M\<close>, the second
  request is posted right after the first and carries the ids of \<open>M\<close> that are not
  excluded, in the order of the form: as a set, \<open>M.ids - E\<close>. When the answer to that
  request has no truthy \<^verbatim>\<open>error\<close>, the outcome is complete, waits 3600 seconds and
  names exactly the submitted categories.
\<close>

theorem raise_modal_submission:
  assumes "request_lots_raise env category posted = (Inr check, posted1)"
      and "dict_get check ''error'' = JNull"
      and "truthy (dict_get check ''modal'')"
      and "soup_checkboxes env (dict_get check ''modal'') = Inr (map entry_checkbox M)"
  shows "\<exists>ids. snd (raise_game_categories env category exclude posted) =
                 posted1 @ [\<lparr>payload_game_id = game_id category, payload_node_id = cat_id category,
                             payload_node_ids = Some ids\<rparr>]
              \<and> ids = [i \<leftarrow> map fst M. i \<notin> excluded exclude]
              \<and> set ids = fst ` set M - excluded exclude
              \<and> (\<forall>r resp.
                    post env \<lparr>payload_game_id = game_id category, payload_node_id = cat_id category,
                              payload_node_ids = Some ids\<rparr> = Inr r
                    \<and> json_body r = Inr resp \<and> \<not> truthy (dict_get resp ''error'')
                    \<longrightarrow> fst (raise_game_categories env category exclude posted) =
                          Inr (Some \<lparr>complete = True, wait = 3600,
                                     raised_category_names =
                                       map snd [e \<leftarrow> M. fst e \<notin> excluded exclude],
                                     response = resp\<rparr>))"
proof -
  have m: "map fst [e \<leftarrow> M. fst e \<notin> excluded exclude] = [i \<leftarrow> map fst M. i \<notin> excluded exclude]"
    by (induction M) auto
  have s: "set [i \<leftarrow> map fst M. i \<notin> excluded exclude] = fst ` set M - excluded exclude"
    by auto
  show ?thesis
    using assms m s
    by (auto simp: raise_game_categories_def collect_entries Let_def split: sum.splits)
qed

text \<open>
  A form with the categories 210, 211 and 212, of which the caller excludes 211:
  210 and 212 are submitted, and \<open>Gold\<close> and \<open>Accounts\<close> are reported raised.
\<close>

theorem raise_modal_submission_witness:
  "snd (raise_game_categories
          (scripted_env modal_check [(''error'', JBool False)] (map entry_checkbox modal_entries))
          gold_category (Some [''211'']) []) =
     [first_payload,
      \<lparr>payload_game_id = Some 41, payload_node_id = 210,
       payload_node_ids = Some [''210'', ''212'']\<rparr>]
   \<and> fst (raise_game_categories
          (scripted_env modal_check [(''error'', JBool False)] (map entry_checkbox modal_entries))
          gold_category (Some [''211'']) []) =
     Inr (Some \<lparr>complete = True, wait = 3600, raised_category_names = [''Gold'', ''Accounts''],
                response = [(''error'', JBool False)]\<rparr>)"
proof -
  let ?env = "scripted_env modal_check [(''error'', JBool False)] (map entry_checkbox modal_entries)"
  have h1: "request_lots_raise ?env gold_category [] = (Inr modal_check, [first_payload])"
    by (rule request_scripted)
  have h2: "dict_get modal_check ''error'' = JNull"
    by (simp add: modal_check_def dict_get_def)
  have h3: "truthy (dict_get modal_check ''modal'')"
    by (simp add: modal_check_def dict_get_def)
  have h4: "soup_checkboxes ?env (dict_get modal_check ''modal'') =
              Inr (map entry_checkbox modal_entries)"
    by (simp add: scripted_env_def)
  have e: "[i \<leftarrow> map fst modal_entries. i \<notin> excluded (Some [''211''])] = [''210'', ''212'']"
    by (simp add: modal_entries_def excluded_def)
  have n: "map snd [e \<leftarrow> modal_entries. fst e \<notin> excluded (Some [''211''])] = [''Gold'', ''Accounts'']"
    by (simp add: modal_entries_def excluded_def)
  have p: "post ?env \<lparr>payload_game_id = game_id gold_category,
                       payload_node_id = cat_id gold_category,
                       payload_node_ids = Some [''210'', ''212'']\<rparr> =
             Inr \<lparr>status_code = 200, json_body = Inr [(''error'', JBool False)]\<rparr>"
    by (simp add: scripted_env_def)
  have t: "\<not> truthy (dict_get [(''error'', JBool False)] ''error'')"
    by (simp add: dict_get_def)
  from raise_modal_submission [OF h1 h2 h3 h4, of "Some [''211'']"] e n p t
  show ?thesis
    by (simp add: gold_category_def)
qed




text \<open>
  Claim C7, as stated, fails in its second half: in the cooldown branch
  \<^verbatim>\<open>raise_game_categories\<close> returns as \<^verbatim>\<open>wait\<close> whatever the parser read from
  the message (lines 257-258) and checks nothing. A message from which the parser
  reads 0 seconds gives an outcome whose \<^verbatim>\<open>wait\<close> is 0, not a positive number.
\<close>

theorem raise_wait_zero_counterexample:
  "fst (raise_game_categories (scripted_env zero_check [] []) gold_category None []) =
     Inr (Some \<lparr>complete = False, wait = 0, raised_category_names = [],
                response = zero_check\<rparr>)
   \<and> \<not> 0 < wait \<lparr>complete = False, wait = 0, raised_category_names = [],
                     response = zero_check\<rparr>"
  by (simp add: raise_game_categories_def request_scripted zero_check_def dict_get_def
      str_in_0 scripted_parser cooldown_seconds_0 cooldown_0_nonempty)

text \<open>
  Claim C7, amended. Every outcome that \<^verbatim>\<open>raise_game_categories\<close> returns names
  raised categories only when it is complete, and its \<^verbatim>\<open>wait\<close> is 10, 3600 or, in
  the cooldown branch (not complete), exactly the value the parser returned for the
  message; so \<^verbatim>\<open>wait\<close> is positive whenever the value the parser returns for the
  message is.
\<close>

theorem raise_outcome_names_and_wait:
  assumes "request_lots_raise env category posted = (Inr check, posted1)"
      and "fst (raise_game_categories env category exclude posted) = Inr (Some out)"
  shows "(raised_category_names out \<noteq> [] \<longrightarrow> complete out)
       \<and> (wait out = 10 \<or> wait out = 3600
          \<or> (\<not> complete out
             \<and> get_wait_time_from_raise_response env (dict_get check ''msg'') = Inr (wait out)))
       \<and> ((\<forall>s. get_wait_time_from_raise_response env (dict_get check ''msg'') = Inr s \<longrightarrow> 0 < s)
            \<longrightarrow> 0 < wait out)"
  using assms
  by (auto simp: raise_game_categories_def Let_def split: sum.splits if_splits prod.splits)

theorem raise_outcome_names_and_wait_witness:
  "fst (raise_game_categories (scripted_env cooldown_check [] []) gold_category None []) =
     Inr (Some \<lparr>complete = False, wait = 45, raised_category_names = [],
                response = cooldown_check\<rparr>)
   \<and> get_wait_time_from_raise_response (scripted_env cooldown_check [] [])
       (dict_get cooldown_check ''msg'') = Inr 45
   \<and> (0::int) < 45"
proof -
  let ?out = "\<lparr>complete = False, wait = 45, raised_category_names = [],
               response = cooldown_check\<rparr>"
  have h1: "request_lots_raise (scripted_env cooldown_check [] []) gold_category [] =
              (Inr cooldown_check, [first_payload])"
    by (rule request_scripted)
  have h2: "fst (raise_game_categories (scripted_env cooldown_check [] []) gold_category None [])
              = Inr (Some ?out)"
    by (simp add: raise_game_categories_def request_scripted cooldown_check_def dict_get_def
        str_in_45 scripted_parser cooldown_seconds_45 cooldown_45_nonempty)
  have h3: "get_wait_time_from_raise_response (scripted_env cooldown_check [] [])
              (dict_get cooldown_check ''msg'') = Inr 45"
    by (simp add: scripted_env_def cooldown_check_def dict_get_def cooldown_seconds_45)
  from raise_outcome_names_and_wait [OF h1 h2] h2 h3
  show ?thesis
    by simp
qed

text \<open>
  Claim C9. An answer with neither an \<^verbatim>\<open>error\<close> key nor a \<^verbatim>\<open>modal\<close> key falls
  through every branch: the method returns \<^verbatim>\<open>None\<close>, no outcome.
\<close>

theorem raise_falls_through_to_None:
  assumes "request_lots_raise env category posted = (Inr check, posted1)"
      and "map_of check ''error'' = None"
      and "map_of check ''modal'' = None"
  shows "raise_game_categories env category exclude posted = (Inr None, posted1)"
  using assms by (simp add: raise_game_categories_def dict_get_def)

theorem raise_falls_through_to_None_witness:
  "raise_game_categories (scripted_env [(''msg'', JStr ''ok'')] [] []) gold_category None [] =
     (Inr None, [first_payload])"
proof -
  have h1: "request_lots_raise (scripted_env [(''msg'', JStr ''ok'')] [] []) gold_category [] =
              (Inr [(''msg'', JStr ''ok'')], [first_payload])"
    by (rule request_scripted)
  have h2: "map_of [(''msg'', JStr ''ok'')] ''error'' = None"
    by simp
  have h3: "map_of [(''msg'', JStr ''ok'')] ''modal'' = None"
    by simp
  show ?thesis
    using raise_falls_through_to_None [OF h1 h2 h3, of None]
    by simp
qed

section \<open>Auxiliary facts about the handlers\<close>

lemma emits_emits: "emits es2 (emits es1 w) = emits (es1 @ es2) w"
  by (simp add: emits_def)

lemma emits_fields:
  "trace (emits es w) = trace w @ es" "inventory (emits es w) = inventory w"
  "last_messages (emits es w) = last_messages w" "posts (emits es w) = posts w"
  by (simp_all add: emits_def)

lemma send_message_trace:
  "trace (snd (send_message env node text w)) = trace w @ [SendMessage node text]"
  by (simp add: send_message_def Let_def emits_def)




lemma send_product_attempts_trace:
  "send_product_attempts env n node text oid w = (res, w') \<Longrightarrow>
     \<exists>es. trace w' = trace w @ concat (map (failed_attempt oid node text) es)
                       @ (if res then [SendMessage node text] else [])
        \<and> (if res then length es < n else length es = n)"
proof (induction n arbitrary: w)
  case 0
  then show ?case by (intro exI [of _ "[]"]) auto
next
  case (Suc n)
  obtain r w1 where sm: "send_message env node text w = (r, w1)"
    by (cases "send_message env node text w")
  then have tr: "trace w1 = trace w @ [SendMessage node text]"
    using send_message_trace [of env node "text" w] by simp
  show ?case
  proof (cases r)
    case (Inr d)
    with Suc.prems sm tr show ?thesis by (intro exI [of _ "[]"]) auto
  next
    case (Inl e)
    let ?w2 = "emits [Log ERROR (ProductSendError oid), Log DEBUG (Traceback e),
                      Log INFO NextAttemptInASecond, Sleep 1] w1"
    from Suc.prems sm Inl have "send_product_attempts env n node text oid ?w2 = (res, w')"
      by simp
    from Suc.IH [OF this] obtain es where
      es: "trace w' = trace ?w2 @ concat (map (failed_attempt oid node text) es)
                       @ (if res then [SendMessage node text] else [])"
          "if res then length es < n else length es = n"
      by blast
    have "trace ?w2 = trace w @ failed_attempt oid node text e"
      by (simp add: emits_fields tr failed_attempt_def)
    with es show ?thesis
      by (intro exI [of _ "e # es"]) (auto split: if_splits)
  qed
qed

lemma length_three: "length es = 3 \<Longrightarrow> \<exists>a b c. es = [a, b, c]"
  by (cases es; simp; cases "tl es"; simp; cases "tl (tl es)"; auto)

lemma send_product_text_failed:
  assumes "send_product_text env node text oid w = (False, w')"
  shows "\<exists>e1 e2 e3. trace w' = trace w @ failed_attempt oid node text e1
            @ failed_attempt oid node text e2 @ failed_attempt oid node text e3"
proof -
  from assms have "send_product_attempts env 3 node text oid w = (False, w')"
    by (simp add: send_product_text_def)
  from send_product_attempts_trace [OF this] obtain es where
    es: "trace w' = trace w @ concat (map (failed_attempt oid node text) es)" "length es = 3"
    by auto
  from length_three [OF es(2)] obtain a b c where "es = [a, b, c]" by blast
  with es show ?thesis by auto
qed

lemma send_product_text_sent:
  assumes "send_product_text env node text oid w = (True, w')"
  shows "\<exists>es. length es < 3
            \<and> trace w' = trace w @ concat (map (failed_attempt oid node text) es)
                           @ [SendMessage node text]"
proof -
  from assms have "send_product_attempts env 3 node text oid w = (True, w')"
    by (simp add: send_product_text_def)
  from send_product_attempts_trace [OF this] show ?thesis by auto
qed

lemma run_handlers_invocations:
  "filter is_invoked (snd (run_handlers hs args s)) = map (\<lambda>nh. Invoked (fst nh) args) hs"
  by (induction hs arbitrary: s) (simp_all add: case_prod_beta split: option.splits)

lemma run_handlers_state:
  "fst (run_handlers hs args s) = foldl (\<lambda>s nh. snd (snd nh args s)) s hs"
  by (induction hs arbitrary: s) (simp_all add: case_prod_beta)

lemma strip_thanks: "ascii_strip ''Thanks, key-1'' = ''Thanks, key-1''"
  by (simp add: ascii_strip_def is_space_def)

lemma replace_thanks: "py_replace ''$product'' ''key-1'' ''Thanks, $product'' = ''Thanks, key-1''"
  by simp

lemma find_gold:
  "find (\<lambda>lot. str_in (fst lot) (order_title gold_order)) (auto_delivery_config shop_cardinal) =
     Some (''Gold'', map_of [(''response'', ''Thanks, $product''),
                              (''productsFilePath'', ''gold.json'')])"
  by (simp add: gold_order_def shop_cardinal_def)



lemma working_send:
  "send_product_text (echo_env (\<lambda>n. Inr [(''response'', JDict [(''error'', JNull)])])) None
     ''Thanks, key-1'' oid w =
     (True, w\<lparr>trace := trace w @ [SendMessage None ''Thanks, key-1''], posts := posts w + 1\<rparr>)"
  by (simp add: send_product_text_def eval_nat_numeral send_message_def strip_thanks Let_def
      echo_env_def emits_def)

section \<open>The dispatcher\<close>

text \<open>
  Claim C1. For every list of registered handlers, one dispatch calls every handler
  exactly once, in registration order, each with the same arguments: the calls the
  dispatcher records are the registered names in order, and the state is the one the
  handlers produce one after the other. A handler that raises is recorded as called
  and as caught, and the handlers after it run on the state it left.
\<close>

theorem dispatch_every_handler_once_in_order:
  "filter is_invoked (snd (run_handlers hs args s)) = map (\<lambda>nh. Invoked (fst nh) args) hs
   \<and> fst (run_handlers hs args s) = foldl (\<lambda>s nh. snd (snd nh args s)) s hs
   \<and> (snd nh args s = (Some e, s1) \<longrightarrow>
        run_handlers (nh # hs) args s =
          (fst (run_handlers hs args s1),
           Invoked (fst nh) args # Caught (fst nh) e # snd (run_handlers hs args s1)))"
  by (simp add: run_handlers_invocations run_handlers_state case_prod_beta)

text \<open>
  The three handlers of the NEW_MESSAGE event, the second of which raises: all three
  are called, in order, and the exception is recorded between the second and the third.
\<close>

theorem dispatch_every_handler_once_in_order_witness:
  "run_handlers new_message_handlers ''hello'' [] =
     ([1, 2, 3],
      [Invoked ''log_msg_handler'' ''hello'',
       Invoked ''send_response_handler'' ''hello'',
       Caught ''send_response_handler'' KeyError,
       Invoked ''send_command_notification_handler'' ''hello''])"
  using dispatch_every_handler_once_in_order [of new_message_handlers "''hello''" "[]"]
  by (simp add: new_message_handlers_def)

section \<open>The delivery workflow\<close>



text \<open>
  Claim C8. The code does not do what the claim and the docstring of
  \<^verbatim>\<open>deliver_product\<close> say. With a products file of two keys and a marketplace that
  accepts the message, one key is delivered, one key remains in the file, and the third
  component of the result is still \<open>-1\<close>: line 208 returns the literal \<^verbatim>\<open>-1\<close>
  on the path with a products file as line 195 does on the path without one.
\<close>

theorem tracked_delivery_reports_minus_one:
  "deliver_product (echo_env (\<lambda>n. Inr [(''response'', JDict [(''error'', JNull)])]))
     shop_cardinal gold_order stocked_world =
     (Inr (Some (True, ''Thanks, key-1'', - 1)),
      \<lparr>trace = [SendMessage None ''Thanks, key-1''],
       inventory = [''gold.json'' \<mapsto> [''key-2'']],
       last_messages = Map.empty, posts = 1\<rparr>)"
proof -
  let ?env = "echo_env (\<lambda>n. Inr [(''response'', JDict [(''error'', JNull)])])"
  have n: "get_node_id_by_username ?env (chats_html shop_cardinal)
             (buyer_name gold_order) False = Inr None"
    by (simp add: get_node_id_by_username_def shop_cardinal_def)
  have f: "format_order_text ?env ''Thanks, $product'' gold_order = Inr ''Thanks, $product''"
    by (simp add: echo_env_def)
  have g: "get_product_from_json ''gold.json'' stocked_world =
             (Inr [''key-1''],
              \<lparr>trace = [], inventory = [''gold.json'' \<mapsto> [''key-2'']],
               last_messages = Map.empty, posts = 0\<rparr>)"
    by (simp add: get_product_from_json_def stocked_world_def)
  show ?thesis
    unfolding deliver_product_def find_gold
    by (simp add: n f g replace_thanks working_send Let_def)
qed

section \<open>The retry policy of the delivery\<close>

lemma get_product_trace:
  "get_product_from_json path w = (r, w1) \<Longrightarrow> trace w1 = trace w"
  by (auto simp: get_product_from_json_def split: option.splits list.splits)

lemma add_product_trace: "trace (add_product_to_json path p w) = trace w"
  by (simp add: add_product_to_json_def)

lemma deliver_product_failed_trace:
  assumes "deliver_product env cardinal order w = (Inr (Some (False, t, r)), w1)"
  shows "\<exists>node oid e1 e2 e3. trace w1 = trace w @ failed_attempt oid node t e1
            @ failed_attempt oid node t e2 @ failed_attempt oid node t e3"
  using assms
  apply (simp add: deliver_product_def Let_def
      split: sum.splits option.splits list.splits prod.splits if_splits)
   apply (blast dest: send_product_text_failed)
  apply (elim exE conjE)
  apply (drule send_product_text_failed)
  apply (drule get_product_trace)
  apply (auto simp: add_product_trace)
  apply (intro exI)
  apply (rule refl)
  done

lemma send_product_text_first_attempt:
  "send_message env node txt w = (Inr r, w1) \<Longrightarrow>
     send_product_text env node txt oid w = (True, w1)"
  by (simp add: send_product_text_def eval_nat_numeral)

lemma send_product_text_second_attempt:
  "send_message env node txt w = (Inl e1, w1) \<Longrightarrow>
   send_message env node txt (after_failed_send oid e1 w1) = (Inr r, w2) \<Longrightarrow>
     send_product_text env node txt oid w = (True, w2)"
  by (simp add: send_product_text_def eval_nat_numeral after_failed_send_def)

lemma send_product_text_third_attempt:
  "send_message env node txt w = (Inl e1, w1) \<Longrightarrow>
   send_message env node txt (after_failed_send oid e1 w1) = (Inl e2, w2) \<Longrightarrow>
   send_message env node txt (after_failed_send oid e2 w2) = (Inr r, w3) \<Longrightarrow>
     send_product_text env node txt oid w = (True, w3)"
  by (simp add: send_product_text_def eval_nat_numeral after_failed_send_def)

lemma three_sends_raise_result:
  assumes "three_sends_raise env node txt oid w e1 e2 e3 w3"
  shows "send_product_text env node txt oid w = (False, after_failed_send oid e3 w3)"
  using assms
  by (auto simp: three_sends_raise_def send_product_text_def eval_nat_numeral
      after_failed_send_def split: prod.splits)

lemma three_sends_raise_trace:
  assumes "three_sends_raise env node txt oid w e1 e2 e3 w3"
  shows "trace (after_failed_send oid e3 w3) =
           trace w @ failed_attempt oid node txt e1 @ failed_attempt oid node txt e2
                   @ failed_attempt oid node txt e3"
proof -
  obtain r1 w1 where s1: "send_message env node txt w = (r1, w1)"
    by (cases "send_message env node txt w")
  obtain r2 w2 where s2: "send_message env node txt (after_failed_send oid e1 w1) = (r2, w2)"
    by (cases "send_message env node txt (after_failed_send oid e1 w1)")
  obtain r3 w4 where s3: "send_message env node txt (after_failed_send oid e2 w2) = (r3, w4)"
    by (cases "send_message env node txt (after_failed_send oid e2 w2)")
  from assms s1 s2 s3 have w: "w4 = w3"
    by (simp add: three_sends_raise_def)
  have t1: "trace w1 = trace w @ [SendMessage node txt]"
    using send_message_trace [of env node "txt" w] s1 by simp
  have t2: "trace w2 = trace (after_failed_send oid e1 w1) @ [SendMessage node txt]"
    using send_message_trace [of env node "txt" "after_failed_send oid e1 w1"] s2 by simp
  have t3: "trace w4 = trace (after_failed_send oid e2 w2) @ [SendMessage node txt]"
    using send_message_trace [of env node "txt" "after_failed_send oid e2 w2"] s3 by simp
  from t1 t2 t3 w show ?thesis
    by (simp add: after_failed_send_def emits_fields failed_attempt_def)
qed

lemma deliver_product_file_three_failures:
  assumes "find (\<lambda>lot. str_in (fst lot) (order_title order)) (auto_delivery_config cardinal)
             = Some (lot_name, delivery_obj)"
      and "get_node_id_by_username env (chats_html cardinal) (buyer_name order) False = Inr node"
      and "delivery_obj ''response'' = Some template"
      and "format_order_text env template order = Inr response_text"
      and "delivery_obj ''productsFilePath'' = Some path"
      and "inventory w path = Some (p # ps)"
      and "three_sends_raise env node (py_replace ''$product'' p response_text) (order_id order)
             (w\<lparr>inventory := (inventory w)(path \<mapsto> ps)\<rparr>) e1 e2 e3 w3"
  shows "deliver_product env cardinal order w =
           (Inr (Some (False, py_replace ''$product'' p response_text, - 1)),
            add_product_to_json path p (after_failed_send (order_id order) e3 w3))"
  using assms(1-6) three_sends_raise_result [OF assms(7)]
  by (simp add: deliver_product_def get_product_from_json_def Let_def)

lemma deliver_product_plain_three_failures:
  assumes "find (\<lambda>lot. str_in (fst lot) (order_title order)) (auto_delivery_config cardinal)
             = Some (lot_name, delivery_obj)"
      and "get_node_id_by_username env (chats_html cardinal) (buyer_name order) False = Inr node"
      and "delivery_obj ''response'' = Some template"
      and "format_order_text env template order = Inr response_text"
      and "delivery_obj ''productsFilePath'' = None"
      and "three_sends_raise env node response_text (order_title order) w e1 e2 e3 w3"
  shows "deliver_product env cardinal order w =
           (Inr (Some (False, response_text, - 1)),
            after_failed_send (order_title order) e3 w3)"
  using assms(1-5) three_sends_raise_result [OF assms(6)]
  by (simp add: deliver_product_def)

lemma handler_reports_failure:
  assumes "autoDelivery cardinal = Inr enabled" and "enabled \<noteq> 0"
      and "deliver_product env cardinal order w = (Inr (Some (False, t, r)), w1)"
  shows "delivery_product_handler env cardinal order w =
           (None,
            run_handlers (delivery_event_handlers cardinal)
              [AOrder order, AStr attempts_exceeded_text, ACardinal, ABool True]
              (emits [Log ERROR (DeliveryAttemptsExceeded (order_id order))] w1))"
  using assms by (simp add: delivery_product_handler_def)

text \<open>
  Claim C5. The product is sent in up to three attempts. An attempt that does not
  raise ends the loop with success, be it the first, the second or the third. An
  attempt that raises is logged and followed by a sleep of one second, and counts: after
  three consecutive attempts that raise, \<^verbatim>\<open>send_product_text\<close> returns
  \<^verbatim>\<open>False\<close> with exactly three attempts in the trace and makes no fourth.
  Conversely a result of \<^verbatim>\<open>False\<close> always comes from three such attempts, and a
  result of \<^verbatim>\<open>True\<close> from fewer than three failures. When the three attempts of a
  delivery raise, with or without a products file, \<^verbatim>\<open>delivery_product_handler\<close> logs
  the failure and dispatches the DELIVERY handlers with the "attempts exceeded" text
  and \<^verbatim>\<open>errored = True\<close>.
\<close>

theorem delivery_send_retried_three_times:
  "(send_message env node txt w = (Inr r, w1) \<longrightarrow>
      send_product_text env node txt oid w = (True, w1))
   \<and> (send_message env node txt w = (Inl e1, w1)
       \<and> send_message env node txt (after_failed_send oid e1 w1) = (Inr r, w2) \<longrightarrow>
      send_product_text env node txt oid w = (True, w2))
   \<and> (send_message env node txt w = (Inl e1, w1)
       \<and> send_message env node txt (after_failed_send oid e1 w1) = (Inl e2, w2)
       \<and> send_message env node txt (after_failed_send oid e2 w2) = (Inr r, w3) \<longrightarrow>
      send_product_text env node txt oid w = (True, w3))
   \<and> (three_sends_raise env node txt oid w e1 e2 e3 w3 \<longrightarrow>
      send_product_text env node txt oid w = (False, after_failed_send oid e3 w3)
      \<and> trace (after_failed_send oid e3 w3) =
          trace w @ failed_attempt oid node txt e1 @ failed_attempt oid node txt e2
                  @ failed_attempt oid node txt e3)
   \<and> (send_product_text env node txt oid w = (False, w') \<longrightarrow>
      (\<exists>x1 x2 x3. trace w' = trace w @ failed_attempt oid node txt x1
          @ failed_attempt oid node txt x2 @ failed_attempt oid node txt x3))
   \<and> (send_product_text env node txt oid w = (True, w') \<longrightarrow>
      (\<exists>es. length es < 3
          \<and> trace w' = trace w @ concat (map (failed_attempt oid node txt) es)
                         @ [SendMessage node txt]))
   \<and> (autoDelivery cardinal = Inr enabled \<and> enabled \<noteq> 0
       \<and> find (\<lambda>lot. str_in (fst lot) (order_title order)) (auto_delivery_config cardinal)
           = Some (lot_name, delivery_obj)
       \<and> get_node_id_by_username env (chats_html cardinal) (buyer_name order) False = Inr nd
       \<and> delivery_obj ''response'' = Some template
       \<and> format_order_text env template order = Inr response_text
       \<and> delivery_obj ''productsFilePath'' = Some path
       \<and> inventory w0 path = Some (p # ps)
       \<and> three_sends_raise env nd (py_replace ''$product'' p response_text) (order_id order)
            (w0\<lparr>inventory := (inventory w0)(path \<mapsto> ps)\<rparr>) e1 e2 e3 w3 \<longrightarrow>
      delivery_product_handler env cardinal order w0 =
        (None,
         run_handlers (delivery_event_handlers cardinal)
           [AOrder order, AStr attempts_exceeded_text, ACardinal, ABool True]
           (emits [Log ERROR (DeliveryAttemptsExceeded (order_id order))]
              (add_product_to_json path p (after_failed_send (order_id order) e3 w3)))))
   \<and> (autoDelivery cardinal = Inr enabled \<and> enabled \<noteq> 0
       \<and> find (\<lambda>lot. str_in (fst lot) (order_title order)) (auto_delivery_config cardinal)
           = Some (lot_name, delivery_obj)
       \<and> get_node_id_by_username env (chats_html cardinal) (buyer_name order) False = Inr nd
       \<and> delivery_obj ''response'' = Some template
       \<and> format_order_text env template order = Inr response_text
       \<and> delivery_obj ''productsFilePath'' = None
       \<and> three_sends_raise env nd response_text (order_title order) w0 e1 e2 e3 w3 \<longrightarrow>
      delivery_product_handler env cardinal order w0 =
        (None,
         run_handlers (delivery_event_handlers cardinal)
           [AOrder order, AStr attempts_exceeded_text, ACardinal, ABool True]
           (emits [Log ERROR (DeliveryAttemptsExceeded (order_id order))]
              (after_failed_send (order_title order) e3 w3))))"
proof (intro conjI impI; (elim conjE)?)
  assume "send_message env node txt w = (Inr r, w1)"
  then show "send_product_text env node txt oid w = (True, w1)"
    by (rule send_product_text_first_attempt)
next
  assume "send_message env node txt w = (Inl e1, w1)"
     and "send_message env node txt (after_failed_send oid e1 w1) = (Inr r, w2)"
  then show "send_product_text env node txt oid w = (True, w2)"
    by (rule send_product_text_second_attempt)
next
  assume "send_message env node txt w = (Inl e1, w1)"
     and "send_message env node txt (after_failed_send oid e1 w1) = (Inl e2, w2)"
     and "send_message env node txt (after_failed_send oid e2 w2) = (Inr r, w3)"
  then show "send_product_text env node txt oid w = (True, w3)"
    by (rule send_product_text_third_attempt)
next
  assume "three_sends_raise env node txt oid w e1 e2 e3 w3"
  then show "send_product_text env node txt oid w = (False, after_failed_send oid e3 w3)"
    by (rule three_sends_raise_result)
next
  assume "three_sends_raise env node txt oid w e1 e2 e3 w3"
  then show "trace (after_failed_send oid e3 w3) =
          trace w @ failed_attempt oid node txt e1 @ failed_attempt oid node txt e2
                  @ failed_attempt oid node txt e3"
    by (rule three_sends_raise_trace)
next
  assume "send_product_text env node txt oid w = (False, w')"
  then show "\<exists>x1 x2 x3. trace w' = trace w @ failed_attempt oid node txt x1
          @ failed_attempt oid node txt x2 @ failed_attempt oid node txt x3"
    by (rule send_product_text_failed)
next
  assume "send_product_text env node txt oid w = (True, w')"
  then show "\<exists>es. length es < 3
          \<and> trace w' = trace w @ concat (map (failed_attempt oid node txt) es)
                         @ [SendMessage node txt]"
    by (rule send_product_text_sent)
next
  assume a: "autoDelivery cardinal = Inr enabled" "enabled \<noteq> 0"
     and d: "find (\<lambda>lot. str_in (fst lot) (order_title order)) (auto_delivery_config cardinal)
           = Some (lot_name, delivery_obj)"
       "get_node_id_by_username env (chats_html cardinal) (buyer_name order) False = Inr nd"
       "delivery_obj ''response'' = Some template"
       "format_order_text env template order = Inr response_text"
       "delivery_obj ''productsFilePath'' = Some path"
       "inventory w0 path = Some (p # ps)"
       "three_sends_raise env nd (py_replace ''$product'' p response_text) (order_id order)
            (w0\<lparr>inventory := (inventory w0)(path \<mapsto> ps)\<rparr>) e1 e2 e3 w3"
  show "delivery_product_handler env cardinal order w0 =
        (None,
         run_handlers (delivery_event_handlers cardinal)
           [AOrder order, AStr attempts_exceeded_text, ACardinal, ABool True]
           (emits [Log ERROR (DeliveryAttemptsExceeded (order_id order))]
              (add_product_to_json path p (after_failed_send (order_id order) e3 w3))))"
    by (rule handler_reports_failure [OF a deliver_product_file_three_failures [OF d]])
next
  assume a: "autoDelivery cardinal = Inr enabled" "enabled \<noteq> 0"
     and d: "find (\<lambda>lot. str_in (fst lot) (order_title order)) (auto_delivery_config cardinal)
           = Some (lot_name, delivery_obj)"
       "get_node_id_by_username env (chats_html cardinal) (buyer_name order) False = Inr nd"
       "delivery_obj ''response'' = Some template"
       "format_order_text env template order = Inr response_text"
       "delivery_obj ''productsFilePath'' = None"
       "three_sends_raise env nd response_text (order_title order) w0 e1 e2 e3 w3"
  show "delivery_product_handler env cardinal order w0 =
        (None,
         run_handlers (delivery_event_handlers cardinal)
           [AOrder order, AStr attempts_exceeded_text, ACardinal, ABool True]
           (emits [Log ERROR (DeliveryAttemptsExceeded (order_id order))]
              (after_failed_send (order_title order) e3 w3)))"
    by (rule handler_reports_failure [OF a deliver_product_plain_three_failures [OF d]])
qed

text \<open>
  A marketplace that refuses every post, and an order for a lot with a products file
  of two keys: three failed attempts, the error line, the key back in its file, and
  one DELIVERY dispatch that carries the failure.
\<close>

theorem delivery_send_retried_three_times_witness:
  "delivery_product_handler (echo_env (\<lambda>n. Inl RequestError)) shop_cardinal gold_order
     stocked_world =
     (None,
      \<lparr>trace = failed_attempt ''A1B2C3'' None ''Thanks, key-1'' RequestError
               @ failed_attempt ''A1B2C3'' None ''Thanks, key-1'' RequestError
               @ failed_attempt ''A1B2C3'' None ''Thanks, key-1'' RequestError
               @ [Log ERROR (DeliveryAttemptsExceeded ''A1B2C3'')],
       inventory = [''gold.json'' \<mapsto> [''key-2'', ''key-1'']],
       last_messages = Map.empty, posts = 3\<rparr>,
      [Invoked ''send_delivery_notification_handler''
         [AOrder gold_order, AStr attempts_exceeded_text, ACardinal, ABool True]])"
proof -
  let ?env = "echo_env (\<lambda>n. Inl RequestError)"
  let ?obj = "map_of [(''response'', ''Thanks, $product''), (''productsFilePath'', ''gold.json'')]"
  let ?w3 = "\<lparr>trace = failed_attempt ''A1B2C3'' None ''Thanks, key-1'' RequestError
                     @ failed_attempt ''A1B2C3'' None ''Thanks, key-1'' RequestError
                     @ [SendMessage None ''Thanks, key-1''],
              inventory = [''gold.json'' \<mapsto> [''key-2'']],
              last_messages = Map.empty, posts = 3\<rparr>"
  have a: "autoDelivery shop_cardinal = Inr 1"
    by (simp add: shop_cardinal_def)
  have z: "(1::int) \<noteq> 0"
    by simp
  have n: "get_node_id_by_username ?env (chats_html shop_cardinal) (buyer_name gold_order) False
             = Inr None"
    by (simp add: get_node_id_by_username_def shop_cardinal_def)
  have r: "?obj ''response'' = Some ''Thanks, $product''"
    by simp
  have f: "format_order_text ?env ''Thanks, $product'' gold_order = Inr ''Thanks, $product''"
    by (simp add: echo_env_def)
  have q: "?obj ''productsFilePath'' = Some ''gold.json''"
    by simp
  have i: "inventory stocked_world ''gold.json'' = Some (''key-1'' # [''key-2''])"
    by (simp add: stocked_world_def)
  have t: "three_sends_raise ?env None (py_replace ''$product'' ''key-1'' ''Thanks, $product'')
             (order_id gold_order)
             (stocked_world\<lparr>inventory := (inventory stocked_world)(''gold.json'' \<mapsto> [''key-2''])\<rparr>)
             RequestError RequestError RequestError ?w3"
    by (simp add: three_sends_raise_def replace_thanks send_message_def strip_thanks Let_def
        echo_env_def after_failed_send_def emits_def stocked_world_def gold_order_def
        failed_attempt_def)
  have h: "delivery_event_handlers shop_cardinal =
             [(''send_delivery_notification_handler'', (\<lambda>args w. (None, w)))]"
    by (simp add: shop_cardinal_def)
  have o: "order_id gold_order = ''A1B2C3''"
    by (simp add: gold_order_def)
  have "delivery_product_handler ?env shop_cardinal gold_order stocked_world =
          (None,
           run_handlers (delivery_event_handlers shop_cardinal)
             [AOrder gold_order, AStr attempts_exceeded_text, ACardinal, ABool True]
             (emits [Log ERROR (DeliveryAttemptsExceeded (order_id gold_order))]
                (add_product_to_json ''gold.json'' ''key-1''
                   (after_failed_send (order_id gold_order) RequestError ?w3))))"
    by (rule delivery_send_retried_three_times
          [THEN conjunct2, THEN conjunct2, THEN conjunct2, THEN conjunct2, THEN conjunct2,
           THEN conjunct2, THEN conjunct1, THEN mp,
           OF conjI [OF a conjI [OF z conjI [OF find_gold conjI [OF n conjI [OF r
                conjI [OF f conjI [OF q conjI [OF i t]]]]]]]]])
  then show ?thesis
    by (simp add: h o emits_def add_product_to_json_def after_failed_send_def failed_attempt_def)
qed

section \<open>Answering a command\<close>

lemma send_response_unknown_key:
  "auto_response_config cardinal (str_strip env (message_text msg)) = None \<Longrightarrow>
     send_response env cardinal msg w = (Inl KeyError, w)"
  by (simp add: send_response_def)

lemma send_response_attempts_unknown_key:
  "auto_response_config cardinal (str_strip env (message_text msg)) = None \<Longrightarrow>
     send_response_attempts env cardinal msg n w =
       (False, emits (concat (replicate n (raised_attempt (sender_username msg) KeyError))) w)"
proof (induction n arbitrary: w)
  case 0
  then show ?case by (simp add: emits_def)
next
  case (Suc n)
  then show ?case
    by (simp add: send_response_unknown_key emits_emits raised_attempt_def)
qed

lemma send_response_three_attempts_unknown_key:
  assumes "auto_response_config cardinal (str_strip env (message_text msg)) = None"
  shows "send_response_attempts env cardinal msg 3 w =
           (False, emits (raised_attempt (sender_username msg) KeyError
                          @ raised_attempt (sender_username msg) KeyError
                          @ raised_attempt (sender_username msg) KeyError) w)"
  using send_response_attempts_unknown_key [OF assms, of "Suc (Suc (Suc 0))" w]
  by (simp only: numeral_3_eq_3 replicate.simps concat.simps append_Nil2)

lemma strip_help: "ascii_strip '' !Help '' = ''!Help''"
  by (simp add: ascii_strip_def is_space_def)

lemma lower_help: "ascii_lower ''!Help'' = ''!help''"
  by (simp add: ascii_lower_def)

text \<open>
  Claim C10. \<open>str_strip env\<close> and \<open>str_lower env\<close> are the builtins
  \<^verbatim>\<open>str.strip()\<close> and \<^verbatim>\<open>str.lower()\<close>, of which nothing is assumed, so the
  statement covers every text, ASCII or not. When the stripped and lowered text of a
  message is a key of the auto-response config but the stripped text as written is
  not, every call of \<^verbatim>\<open>send_response\<close> raises KeyError. With auto-response enabled the handler
  passes the check of line 73, makes three attempts that all raise KeyError, and gives
  up; whatever the switch says, the handler calls \<^verbatim>\<open>send_message\<close> not once and
  changes nothing but the log.
\<close>

theorem uncased_command_is_never_answered:
  assumes "auto_response_config cardinal (str_lower env (str_strip env (message_text msg))) \<noteq> None"
      and "auto_response_config cardinal (str_strip env (message_text msg)) = None"
  shows "(\<forall>w0. send_response env cardinal msg w0 = (Inl KeyError, w0))
       \<and> (\<forall>enabled. AutoResponse cardinal = Inr enabled \<and> enabled \<noteq> 0 \<longrightarrow>
            send_response_handler env cardinal msg w =
              (None,
               emits ([Log INFO (CommandReceived (str_strip env (message_text msg))
                                   (sender_username msg) (node_id msg))]
                      @ raised_attempt (sender_username msg) KeyError
                      @ raised_attempt (sender_username msg) KeyError
                      @ raised_attempt (sender_username msg) KeyError
                      @ [Log ERROR ResponseAttemptsExceeded]) w))
       \<and> (\<exists>es. snd (send_response_handler env cardinal msg w) = emits es w
                \<and> filter is_send es = [])"
proof (intro conjI allI impI)
  fix w0
  show "send_response env cardinal msg w0 = (Inl KeyError, w0)"
    using assms(2) by (rule send_response_unknown_key)
next
  fix enabled
  assume "AutoResponse cardinal = Inr enabled \<and> enabled \<noteq> 0"
  with assms show "send_response_handler env cardinal msg w =
              (None,
               emits ([Log INFO (CommandReceived (str_strip env (message_text msg))
                                   (sender_username msg) (node_id msg))]
                      @ raised_attempt (sender_username msg) KeyError
                      @ raised_attempt (sender_username msg) KeyError
                      @ raised_attempt (sender_username msg) KeyError
                      @ [Log ERROR ResponseAttemptsExceeded]) w)"
    by (auto simp: send_response_handler_def send_response_three_attempts_unknown_key emits_emits)
next
  show "\<exists>es. snd (send_response_handler env cardinal msg w) = emits es w \<and> filter is_send es = []"
  proof (cases "AutoResponse cardinal")
    case (Inl e)
    then show ?thesis
      by (intro exI [of _ "[]"]) (simp add: send_response_handler_def emits_def)
  next
    case (Inr enabled)
    show ?thesis
    proof (cases "enabled = 0")
      case True
      with Inr show ?thesis
        by (intro exI [of _ "[]"]) (simp add: send_response_handler_def emits_def)
    next
      case False
      with Inr assms show ?thesis
        by (intro exI [of _ "[Log INFO (CommandReceived (str_strip env (message_text msg))
                                   (sender_username msg) (node_id msg))]
                      @ raised_attempt (sender_username msg) KeyError
                      @ raised_attempt (sender_username msg) KeyError
                      @ raised_attempt (sender_username msg) KeyError
                      @ [Log ERROR ResponseAttemptsExceeded]"])
           (auto simp: send_response_handler_def send_response_three_attempts_unknown_key
            emits_emits raised_attempt_def)
    qed
  qed
qed

text \<open>
  The config knows \<^verbatim>\<open>!help\<close>; the buyer writes \<^verbatim>\<open>!Help\<close>.
\<close>

theorem uncased_command_is_never_answered_witness:
  "str_lower (echo_env (\<lambda>n. Inr [])) (str_strip (echo_env (\<lambda>n. Inr [])) (message_text help_message)) = ''!help''
   \<and> auto_response_config shop_cardinal ''!help'' \<noteq> None
   \<and> auto_response_config shop_cardinal ''!Help'' = None
   \<and> send_response_handler (echo_env (\<lambda>n. Inr [])) shop_cardinal help_message stocked_world =
       (None,
        \<lparr>trace = [Log INFO (CommandReceived ''!Help'' ''buyer'' 5)]
                 @ raised_attempt ''buyer'' KeyError
                 @ raised_attempt ''buyer'' KeyError
                 @ raised_attempt ''buyer'' KeyError
                 @ [Log ERROR ResponseAttemptsExceeded],
         inventory = [''gold.json'' \<mapsto> [''key-1'', ''key-2'']],
         last_messages = Map.empty, posts = 0\<rparr>)"
proof -
  have t: "str_strip (echo_env (\<lambda>n. Inr [])) (message_text help_message) = ''!Help''"
    by (simp add: help_message_def strip_help echo_env_def)
  have l: "str_lower (echo_env (\<lambda>n. Inr [])) (str_strip (echo_env (\<lambda>n. Inr [])) (message_text help_message)) = ''!help''"
    by (simp add: t lower_help) (simp add: echo_env_def lower_help)
  have k: "auto_response_config shop_cardinal ''!help'' \<noteq> None"
    by (simp add: shop_cardinal_def)
  have u: "auto_response_config shop_cardinal ''!Help'' = None"
    by (simp add: shop_cardinal_def)
  have h1: "auto_response_config shop_cardinal (str_lower (echo_env (\<lambda>n. Inr [])) (str_strip (echo_env (\<lambda>n. Inr [])) (message_text help_message)))
              \<noteq> None"
    using k by (simp add: l)
  have h2: "auto_response_config shop_cardinal (str_strip (echo_env (\<lambda>n. Inr [])) (message_text help_message)) = None"
    using u by (simp add: t)
  have a: "AutoResponse shop_cardinal = Inr 1"
    by (simp add: shop_cardinal_def)
  from uncased_command_is_never_answered [OF h1 h2, of stocked_world]
       a l k u t
  show ?thesis
    by (simp add: help_message_def emits_def stocked_world_def)
qed

end
